theory Spec2Isabelle
  imports Complex_Main
begin

section \<open>Strings\<close>

text \<open>
  Python's \<open>str\<close> is modelled as \<open>string\<close>; a \<open>char\<close> stands for a code point
  below 256. \<open>isspace\<close> lists the code points below 256 for which Python's
  \<open>str.isspace\<close> is true (tab to carriage return, the four separators 28..31, the
  space, NEL and the no-break space); \<open>str.strip()\<close> removes exactly these from both ends.
\<close>

definition isspace :: "char \<Rightarrow> bool" where
  "isspace c = (of_char c \<in> set [9, 10, 11, 12, 13, 28, 29, 30, 31, 32, 133, 160 :: nat])"

definition lstrip :: "string \<Rightarrow> string" where
  "lstrip s = dropWhile isspace s"

definition rstrip :: "string \<Rightarrow> string" where
  "rstrip s = rev (dropWhile isspace (rev s))"

definition strip :: "string \<Rightarrow> string" where
  "strip s = rstrip (lstrip s)"

text \<open>The spec's glossary: a string is blank when it is empty or only whitespace.\<close>

definition blank :: "string \<Rightarrow> bool" where
  "blank s = list_all isspace s"

text \<open>Python's \<open>needle in haystack\<close> on strings: \<open>needle\<close> occurs as a substring.\<close>

fun startswith :: "string \<Rightarrow> string \<Rightarrow> bool" where
  "startswith hay [] = True"
| "startswith [] (c # cs) = False"
| "startswith (h # hs) (c # cs) = (h = c \<and> startswith hs cs)"

fun str_contains :: "string \<Rightarrow> string \<Rightarrow> bool" where
  "str_contains [] needle = (needle = [])"
| "str_contains (h # hs) needle = (startswith (h # hs) needle \<or> str_contains hs needle)"

section \<open>Floats\<close>

text \<open>
  A Python \<open>float\<close> is an IEEE 754 double: a finite number, an infinity or NaN.
  \<open>Finite x\<close> stands for the double whose value is \<open>x\<close>; the two zeros are one value,
  as they are under Python's comparisons. \<open>float(x)\<close> on a float is the identity and
  raises nothing.
\<close>

datatype pyfloat = Finite real | PosInf | NegInf | NaN

text \<open>The comparisons \<open>x < 0\<close> and \<open>x >= 0\<close>: both are false of NaN.\<close>

fun float_lt0 :: "pyfloat \<Rightarrow> bool" where
  "float_lt0 (Finite x) = (x < 0)"
| "float_lt0 PosInf = False"
| "float_lt0 NegInf = True"
| "float_lt0 NaN = False"

fun float_ge0 :: "pyfloat \<Rightarrow> bool" where
  "float_ge0 (Finite x) = (0 \<le> x)"
| "float_ge0 PosInf = True"
| "float_ge0 NegInf = False"
| "float_ge0 NaN = False"

text \<open>\<open>abs(x)\<close> and \<open>-x\<close>.\<close>

fun float_abs :: "pyfloat \<Rightarrow> pyfloat" where
  "float_abs (Finite x) = Finite \<bar>x\<bar>"
| "float_abs PosInf = PosInf"
| "float_abs NegInf = PosInf"
| "float_abs NaN = NaN"

fun float_neg :: "pyfloat \<Rightarrow> pyfloat" where
  "float_neg (Finite x) = Finite (- x)"
| "float_neg PosInf = NegInf"
| "float_neg NegInf = PosInf"
| "float_neg NaN = NaN"

text \<open>
  The sum of two doubles is the exact sum rounded to the nearest double, a tie going
  to the one with an even significand. \<open>round_double x\<close> rounds at the unit in the last
  place of \<open>x\<close>: a double has a significand of 53 bits, so the unit is \<open>2 powi (e - 52)\<close>
  where \<open>e\<close> is the exponent of \<open>x\<close>, and no exponent is below -1022 (subnormal
  numbers share the unit \<open>2 powi (- 1074)\<close>). A result of magnitude \<open>2 ^ 1024\<close> or more
  is an infinity.
\<close>

definition round_half_even :: "real \<Rightarrow> int" where
  "round_half_even r =
     (let f = \<lfloor>r\<rfloor>; d = r - of_int f
      in if d < 1 / 2 then f else if 1 / 2 < d then f + 1 else if even f then f else f + 1)"

definition DBL_OVERFLOW :: real where
  "DBL_OVERFLOW = 2 ^ 1024"

definition round_double :: "real \<Rightarrow> pyfloat" where
  "round_double x =
     (if x = 0 then Finite 0
      else
        (let e = max \<lfloor>log 2 \<bar>x\<bar>\<rfloor> (- 1022);
             q = e - 52;
             y = of_int (round_half_even (x / 2 powi q)) * 2 powi q
         in if DBL_OVERFLOW \<le> \<bar>y\<bar> then (if 0 < y then PosInf else NegInf) else Finite y))"

text \<open>\<open>a + b\<close> and \<open>a - b\<close> on floats; infinities of opposite sign add to NaN.\<close>

fun float_add :: "pyfloat \<Rightarrow> pyfloat \<Rightarrow> pyfloat" where
  "float_add NaN b = NaN"
| "float_add a NaN = NaN"
| "float_add (Finite x) (Finite y) = round_double (x + y)"
| "float_add PosInf NegInf = NaN"
| "float_add NegInf PosInf = NaN"
| "float_add PosInf b = PosInf"
| "float_add a PosInf = PosInf"
| "float_add NegInf b = NegInf"
| "float_add a NegInf = NegInf"

definition float_sub :: "pyfloat \<Rightarrow> pyfloat \<Rightarrow> pyfloat" where
  "float_sub a b = float_add a (float_neg b)"

section \<open>The player entity (src/backend/app/models.py)\<close>

record Player =
  name :: string
  position :: string
  club :: string
  "value" :: pyfloat

datatype exn = ValueError string

definition VALID_POSITIONS :: "string set" where
  "VALID_POSITIONS = {''GK'', ''DF'', ''CM'', ''FW''}"

definition MSG_EMPTY :: string where
  "MSG_EMPTY = ''Name, position, and club cannot be empty''"

definition MSG_NEGATIVE :: string where
  "MSG_NEGATIVE = ''Player value cannot be negative''"

text \<open>
  The source joins the set \<open>VALID_POSITIONS\<close> into the message; the iteration order of a
  Python set is unspecified, the message below fixes one order.
\<close>

definition MSG_POSITION :: string where
  "MSG_POSITION = ''Invalid position. Must be one of: GK, DF, CM, FW''"

definition MSG_VALUE_FORMAT :: string where
  "MSG_VALUE_FORMAT = ''Invalid value format. Must be a number''"

definition MSG_CLUB_EMPTY :: string where
  "MSG_CLUB_EMPTY = ''New club cannot be empty''"

definition MSG_TRANSFER_NEGATIVE :: string where
  "MSG_TRANSFER_NEGATIVE = ''Transfer money cannot be negative''"

definition MSG_TRANSFER_FORMAT :: string where
  "MSG_TRANSFER_FORMAT = ''Invalid transfer money format. Must be a number''"

text \<open>\<open>Player.__init__\<close>: the three guards in the source's order, then the stripped fields.\<close>

definition Player_init :: "string \<Rightarrow> string \<Rightarrow> string \<Rightarrow> pyfloat \<Rightarrow> exn + Player" where
  "Player_init nm pos cl v =
     (if nm = [] \<or> pos = [] \<or> cl = [] then Inl (ValueError MSG_EMPTY)
      else if float_lt0 v then Inl (ValueError MSG_NEGATIVE)
      else if pos \<notin> VALID_POSITIONS then Inl (ValueError MSG_POSITION)
      else Inr \<lparr>name = strip nm, position = strip pos, club = strip cl, value = v\<rparr>)"

type_synonym player_dict = "string \<times> string \<times> string \<times> pyfloat"

definition to_dict :: "Player \<Rightarrow> player_dict" where
  "to_dict p = (name p, position p, club p, value p)"

text \<open>
  A method mutates \<open>self\<close> and returns or raises: it is a function from the object's
  state to the outcome and the object's state afterwards. The state is returned on a
  raise as well, since an assignment made before the raise stays made.
\<close>

definition inOrDecrisePlayerValue :: "Player \<Rightarrow> pyfloat \<Rightarrow> (exn + pyfloat) \<times> Player" where
  "inOrDecrisePlayerValue self amount =
     (if float_lt0 amount then
        (let amount' = float_abs amount;
             self' = self\<lparr>value := float_sub (value self) amount'\<rparr>
         in (Inr (value self'), self'))
      else
        (let self' = self\<lparr>value := float_add (value self) amount\<rparr>
         in (Inr (value self'), self')))"

text \<open>
  \<open>setNewPlayerValue\<close>: the guard raises inside the \<open>try\<close>, and the \<open>except\<close> clause
  replaces every \<open>ValueError\<close> by one with the format message.
\<close>

definition setNewPlayerValue :: "Player \<Rightarrow> pyfloat \<Rightarrow> (exn + pyfloat) \<times> Player" where
  "setNewPlayerValue self newValue =
     (let (r, self') =
        (if float_lt0 newValue then (Inl (ValueError MSG_NEGATIVE), self)
         else (let self1 = self\<lparr>value := newValue\<rparr> in (Inr (value self1), self1)))
      in case r of
           Inl e \<Rightarrow> (Inl (ValueError MSG_VALUE_FORMAT), self')
         | Inr v \<Rightarrow> (Inr v, self'))"

text \<open>
  \<open>setNewClub\<close>: the blank check, then inside the \<open>try\<close> the fee guard, the assignment
  of the club and the nested call; the \<open>except\<close> clause re-raises an error whose text
  contains the negative-value message and replaces every other one.
\<close>

definition setNewClub :: "Player \<Rightarrow> string \<Rightarrow> pyfloat \<Rightarrow> (exn + string) \<times> Player" where
  "setNewClub self newClub transferMoney =
     (if newClub = [] \<or> strip newClub = [] then (Inl (ValueError MSG_CLUB_EMPTY), self)
      else
        (let (r, self') =
           (if float_lt0 transferMoney then (Inl (ValueError MSG_TRANSFER_NEGATIVE), self)
            else
              (let self1 = self\<lparr>club := strip newClub\<rparr>;
                   (r2, self2) = setNewPlayerValue self1 transferMoney
               in case r2 of
                    Inl e \<Rightarrow> (Inl e, self2)
                  | Inr v \<Rightarrow> (Inr (club self2), self2)))
         in case r of
              Inl (ValueError m) \<Rightarrow>
                (if str_contains m MSG_NEGATIVE then (Inl (ValueError m), self')
                 else (Inl (ValueError MSG_TRANSFER_FORMAT), self'))
            | Inr c \<Rightarrow> (Inr c, self')))"

section \<open>The sibling variants of the methods\<close>

text \<open>
  \<open>Player.setNewClub\<close> of src/backend/main.py and src/backend/vercel_app.py: as above, but
  the fee is assigned to \<open>value\<close> directly.
\<close>

definition main_setNewClub :: "Player \<Rightarrow> string \<Rightarrow> pyfloat \<Rightarrow> (exn + string) \<times> Player" where
  "main_setNewClub self newClub transferMoney =
     (if newClub = [] \<or> strip newClub = [] then (Inl (ValueError MSG_CLUB_EMPTY), self)
      else
        (let (r, self') =
           (if float_lt0 transferMoney then (Inl (ValueError MSG_TRANSFER_NEGATIVE), self)
            else
              (let self1 = self\<lparr>club := strip newClub\<rparr>;
                   self2 = self1\<lparr>value := transferMoney\<rparr>
               in (Inr (club self2), self2)))
         in case r of
              Inl (ValueError m) \<Rightarrow>
                (if str_contains m MSG_NEGATIVE then (Inl (ValueError m), self')
                 else (Inl (ValueError MSG_TRANSFER_FORMAT), self'))
            | Inr c \<Rightarrow> (Inr c, self')))"

text \<open>
  \<open>Player.setNewPlayerValue\<close> of the terminal program src/playerObj.py: no guard, the
  absolute value is stored and nothing is returned.
\<close>

definition playerObj_setNewPlayerValue :: "Player \<Rightarrow> pyfloat \<Rightarrow> Player" where
  "playerObj_setNewPlayerValue self newValue =
     (let newValue' = float_abs newValue in self\<lparr>value := newValue'\<rparr>)"

section \<open>The roster and the request handlers (src/backend/app/main.py)\<close>

text \<open>
  Players are objects: the module-level list \<open>players\<close> holds references, and two
  players with equal fields are still two objects. The state is the object store
  (\<open>heap\<close>, a reference is an index into it) and the list of references. A new object
  gets the next free reference; an object dropped from the list stays in the store as
  garbage.
\<close>

type_synonym ref = nat

record state =
  heap :: "Player list"
  players :: "ref list"

datatype http_error = HTTPException nat string

fun status_code :: "http_error \<Rightarrow> nat" where
  "status_code (HTTPException c d) = c"

text \<open>The spec's error kinds, as section 7 maps them to the HTTP status.\<close>

definition is_ValidationError :: "http_error \<Rightarrow> bool" where
  "is_ValidationError e = (status_code e = 400)"

definition is_NotFoundError :: "http_error \<Rightarrow> bool" where
  "is_NotFoundError e = (status_code e = 404)"

definition MSG_NOT_FOUND :: string where
  "MSG_NOT_FOUND = ''Player not found''"

text \<open>
  \<open>call_method s r m\<close> is the call \<open>obj.m(...)\<close> on the object at reference \<open>r\<close>: the
  method runs on the object's state and the store keeps what it left there.
\<close>

definition call_method :: "state \<Rightarrow> ref \<Rightarrow> (Player \<Rightarrow> 'r \<times> Player) \<Rightarrow> 'r \<times> state" where
  "call_method s r m =
     (let (res, self') = m (heap s ! r) in (res, s\<lparr>heap := (heap s)[r := self']\<rparr>))"

text \<open>\<open>xs.pop(i)\<close> for an index in range: the element and the list without it.\<close>

definition list_pop :: "'a list \<Rightarrow> nat \<Rightarrow> 'a \<times> 'a list" where
  "list_pop xs i = (xs ! i, take i xs @ drop (Suc i) xs)"

text \<open>
  The request body of \<open>create_player\<close>, the pydantic model \<open>PlayerBase\<close>, and the
  constraints its fields declare (\<open>min_length=1\<close>, the literal type, \<open>ge=0\<close>).
\<close>

record PlayerBase =
  data_name :: string
  data_position :: string
  data_club :: string
  data_value :: pyfloat

definition PlayerBase_valid :: "PlayerBase \<Rightarrow> bool" where
  "PlayerBase_valid d =
     (1 \<le> length (data_name d) \<and> data_position d \<in> VALID_POSITIONS \<and>
      1 \<le> length (data_club d) \<and> float_ge0 (data_value d))"

definition get_players :: "state \<Rightarrow> (http_error + player_dict list) \<times> state" where
  "get_players s = (Inr (map (\<lambda>r. to_dict (heap s ! r)) (players s)), s)"

definition create_player :: "state \<Rightarrow> PlayerBase \<Rightarrow> (http_error + player_dict) \<times> state" where
  "create_player s player_data =
     (let v = data_value player_data in
      if float_lt0 v then (Inl (HTTPException 400 MSG_NEGATIVE), s)
      else
        (case Player_init (data_name player_data) (data_position player_data)
                (data_club player_data) v of
           Inl (ValueError m) \<Rightarrow> (Inl (HTTPException 400 m), s)
         | Inr new_player \<Rightarrow>
             (let r = length (heap s);
                  s' = \<lparr>heap = heap s @ [new_player], players = players s @ [r]\<rparr>
              in (Inr (to_dict new_player), s'))))"

definition transfer_player ::
  "state \<Rightarrow> int \<Rightarrow> string \<Rightarrow> pyfloat \<Rightarrow> (http_error + player_dict) \<times> state" where
  "transfer_player s player_id new_club transfer_money =
     (if \<not> (0 \<le> player_id \<and> player_id < int (length (players s)))
      then (Inl (HTTPException 404 MSG_NOT_FOUND), s)
      else
        (let (r, s') = call_method s (players s ! nat player_id)
                         (\<lambda>self. setNewClub self new_club transfer_money)
         in case r of
              Inl (ValueError m) \<Rightarrow> (Inl (HTTPException 400 m), s')
            | Inr c \<Rightarrow> (Inr (to_dict (heap s' ! (players s' ! nat player_id))), s')))"

definition update_player_value ::
  "state \<Rightarrow> int \<Rightarrow> pyfloat \<Rightarrow> (http_error + player_dict) \<times> state" where
  "update_player_value s player_id amount =
     (if \<not> (0 \<le> player_id \<and> player_id < int (length (players s)))
      then (Inl (HTTPException 404 MSG_NOT_FOUND), s)
      else
        (let (r, s') = call_method s (players s ! nat player_id)
                         (\<lambda>self. inOrDecrisePlayerValue self amount)
         in case r of
              Inl (ValueError m) \<Rightarrow> (Inl (HTTPException 400 m), s')
            | Inr v \<Rightarrow> (Inr (to_dict (heap s' ! (players s' ! nat player_id))), s')))"

definition delete_player :: "state \<Rightarrow> int \<Rightarrow> (http_error + player_dict) \<times> state" where
  "delete_player s player_id =
     (if \<not> (0 \<le> player_id \<and> player_id < int (length (players s)))
      then (Inl (HTTPException 404 MSG_NOT_FOUND), s)
      else
        (let (deleted_player, rest) = list_pop (players s) (nat player_id);
             s' = s\<lparr>players := rest\<rparr>
         in (Inr (to_dict (heap s' ! deleted_player)), s')))"

text \<open>\<open>transfer_player\<close> of src/backend/main.py and src/backend/vercel_app.py.\<close>

definition main_transfer_player ::
  "state \<Rightarrow> int \<Rightarrow> string \<Rightarrow> pyfloat \<Rightarrow> (http_error + player_dict) \<times> state" where
  "main_transfer_player s player_id new_club transfer_money =
     (if \<not> (0 \<le> player_id \<and> player_id < int (length (players s)))
      then (Inl (HTTPException 404 MSG_NOT_FOUND), s)
      else
        (let (r, s') = call_method s (players s ! nat player_id)
                         (\<lambda>self. main_setNewClub self new_club transfer_money)
         in case r of
              Inl (ValueError m) \<Rightarrow> (Inl (HTTPException 400 m), s')
            | Inr c \<Rightarrow> (Inr (to_dict (heap s' ! (players s' ! nat player_id))), s')))"

text \<open>The module-level list of src/backend/app/models.py: five objects, in this order.\<close>

definition initial_state :: state where
  "initial_state =
     \<lparr>heap =
        [\<lparr>name = ''Erling Haaland'', position = ''FW'', club = ''Manchester City'', value = Finite 180\<rparr>,
         \<lparr>name = ''Jude Bellingham'', position = ''CM'', club = ''Real Madrid'', value = Finite 150\<rparr>,
         \<lparr>name = ''Kylian Mbapp'' @ [CHR 0xE9], position = ''FW'', club = ''PSG'', value = Finite 180\<rparr>,
         \<lparr>name = ''Vinicius Jr'', position = ''FW'', club = ''Real Madrid'', value = Finite 150\<rparr>,
         \<lparr>name = ''Phil Foden'', position = ''CM'', club = ''Manchester City'', value = Finite 130\<rparr>],
      players = [0, 1, 2, 3, 4]\<rparr>"

text \<open>The states the service can be in: the initial one, and what a request leaves.\<close>

inductive reachable :: "state \<Rightarrow> bool" where
  reach_init: "reachable initial_state"
| reach_create: "reachable s \<Longrightarrow> reachable (snd (create_player s d))"
| reach_transfer: "reachable s \<Longrightarrow> reachable (snd (transfer_player s i c m))"
| reach_value: "reachable s \<Longrightarrow> reachable (snd (update_player_value s i a))"
| reach_delete: "reachable s \<Longrightarrow> reachable (snd (delete_player s i))"
| reach_list: "reachable s \<Longrightarrow> reachable (snd (get_players s))"

text \<open>
  The roster as the spec sees it: the players' records in list order. A state is well
  formed when the list holds each object once and every reference is allocated.
\<close>

definition roster :: "state \<Rightarrow> Player list" where
  "roster s = map (\<lambda>r. heap s ! r) (players s)"

definition well_formed :: "state \<Rightarrow> bool" where
  "well_formed s = (distinct (players s) \<and> list_all (\<lambda>r. r < length (heap s)) (players s))"


text \<open>An outcome is a failure of the given kind.\<close>

definition fails_with :: "(http_error \<Rightarrow> bool) \<Rightarrow> http_error + 'a \<Rightarrow> bool" where
  "fails_with kind r = (case r of Inl e \<Rightarrow> kind e | Inr x \<Rightarrow> False)"




section \<open>Strings: stripping and blankness\<close>

lemma strip_empty_iff_blank: "strip s = [] \<longleftrightarrow> blank s"
proof -
  have "strip s = [] \<longleftrightarrow> dropWhile isspace (rev (dropWhile isspace s)) = []"
    by (simp add: strip_def rstrip_def lstrip_def)
  also have "\<dots> \<longleftrightarrow> (\<forall>c \<in> set (dropWhile isspace s). isspace c)"
    by simp
  also have "\<dots> \<longleftrightarrow> dropWhile isspace s = []"
  proof
    assume a: "\<forall>c \<in> set (dropWhile isspace s). isspace c"
    show "dropWhile isspace s = []"
    proof (cases "dropWhile isspace s")
      case Nil
      then show ?thesis .
    next
      case (Cons c cs)
      then have "\<not> isspace c" using hd_dropWhile [of isspace s] by simp
      moreover have "isspace c" using a Cons by simp
      ultimately show ?thesis by simp
    qed
  qed (auto dest: set_dropWhileD)
  also have "\<dots> \<longleftrightarrow> blank s"
    by (simp add: blank_def list_all_iff)
  finally show ?thesis .
qed


lemma club_check_iff_blank: "(s = [] \<or> strip s = []) \<longleftrightarrow> blank s"
  using strip_empty_iff_blank [of s] by (auto simp: blank_def)

section \<open>Floats: comparisons and rounding\<close>

lemma float_ge0_not_lt0: "float_ge0 x \<Longrightarrow> \<not> float_lt0 x"
  by (cases x) simp_all



lemma float_abs_ge0: "float_ge0 x \<Longrightarrow> float_abs x = x"
  by (cases x) simp_all

lemma round_half_even_of_int: "round_half_even (of_int z) = z"
  by (simp add: round_half_even_def)


lemma round_double_of_int:
  assumes "\<bar>m\<bar> < 2 ^ 53"
  shows "round_double (of_int m) = Finite (of_int m)"
proof (cases "m = 0")
  case True
  then show ?thesis by (simp add: round_double_def)
next
  case False
  define a :: real where "a = \<bar>of_int m\<bar>"
  define n where "n = nat (52 - \<lfloor>log 2 a\<rfloor>)"
  have a1: "1 \<le> a" using False by (simp add: a_def)
  have a2: "a < 2 ^ 53"
  proof -
    have "real_of_int \<bar>m\<bar> < real_of_int (2 ^ 53)"
      using assms by (simp only: of_int_less_iff)
    then show ?thesis by (simp add: a_def)
  qed
  have lo: "0 \<le> \<lfloor>log 2 a\<rfloor>" using a1 by simp
  have "log 2 a < 53"
    using a1 a2 by (simp add: log_less_iff powr_realpow [of 2 53, simplified])
  then have hi: "\<lfloor>log 2 a\<rfloor> \<le> 52" by (simp add: floor_le_iff)
  have e: "max \<lfloor>log 2 a\<rfloor> (- 1022) = \<lfloor>log 2 a\<rfloor>" using lo by simp
  have q: "\<lfloor>log 2 a\<rfloor> - 52 = - int n" using hi by (simp add: n_def)
  have p: "(2::real) powi (- int n) = inverse (2 ^ n)"
    by (simp add: power_int_minus)
  have d: "real_of_int m / inverse (2 ^ n) = of_int (m * 2 ^ n)"
    by (simp add: field_simps)
  have y: "of_int (round_half_even (of_int m / (2::real) powi (- int n))) * (2::real) powi (- int n)
      = of_int m"
    unfolding p d round_half_even_of_int by simp
  have "\<bar>real_of_int m\<bar> < DBL_OVERFLOW"
  proof -
    have "(2::real) ^ 53 \<le> 2 ^ 1024" by (rule power_increasing) simp_all
    then show ?thesis using a2 by (simp add: a_def DBL_OVERFLOW_def del: power_increasing_iff)
  qed
  then show ?thesis
    using False
    by (simp add: round_double_def Let_def a_def [symmetric] e q y)
qed


lemma round_double_ties_to_even: "round_double (2 ^ 53 + 1) = Finite (2 ^ 53)"
proof -
  define x :: real where "x = 2 ^ 53 + 1"
  have pos: "0 < x" by (simp add: x_def)
  have "\<lfloor>log 2 x\<rfloor> = 53"
    using floor_log_eq_powr_iff [of x 2 53] pos
    by (simp add: powr_realpow [of 2 53, simplified] powr_realpow [of 2 54, simplified] x_def)
  then have e: "max \<lfloor>log 2 \<bar>x\<bar>\<rfloor> (- 1022) - 52 = 1" using pos by simp
  have h: "x / 2 powi 1 = of_int (2 ^ 52) + 1 / 2" by (simp add: x_def)
  have r: "round_half_even (of_int (2 ^ 52) + 1 / 2) = 2 ^ 52"
    by (simp add: round_half_even_def Let_def)
  have y: "real_of_int (round_half_even (x / 2 powi 1)) * 2 powi 1 = 2 ^ 53"
    unfolding h r by simp
  have "(2::real) ^ 53 < 2 ^ 1024" by (rule power_strict_increasing) simp_all
  then have lt: "\<not> DBL_OVERFLOW \<le> \<bar>2 ^ 53 :: real\<bar>"
    by (simp add: DBL_OVERFLOW_def del: power_strict_increasing_iff)
  have "round_double x =
      (if x = 0 then Finite 0
       else if DBL_OVERFLOW \<le> \<bar>2 ^ 53\<bar> then (if 0 < (2 ^ 53 :: real) then PosInf else NegInf)
       else Finite (2 ^ 53))"
    unfolding round_double_def Let_def e y by (rule refl)
  then have "round_double x = Finite (2 ^ 53)"
    using pos lt by simp
  then show ?thesis by (simp add: x_def)
qed



section \<open>The methods in closed form\<close>

lemma not_contains_transfer_negative: "\<not> str_contains MSG_TRANSFER_NEGATIVE MSG_NEGATIVE"
  by (simp add: MSG_TRANSFER_NEGATIVE_def MSG_NEGATIVE_def)

lemma not_contains_value_format: "\<not> str_contains MSG_VALUE_FORMAT MSG_NEGATIVE"
  by (simp add: MSG_VALUE_FORMAT_def MSG_NEGATIVE_def)

lemma inOrDecrisePlayerValue_eq:
  "inOrDecrisePlayerValue p a =
     (Inr (if float_lt0 a then float_sub (value p) (float_abs a) else float_add (value p) a),
      p\<lparr>value := (if float_lt0 a then float_sub (value p) (float_abs a)
                    else float_add (value p) a)\<rparr>)"
  by (simp add: inOrDecrisePlayerValue_def Let_def)

lemma setNewPlayerValue_eq:
  "setNewPlayerValue p v =
     (if float_lt0 v then (Inl (ValueError MSG_VALUE_FORMAT), p) else (Inr v, p\<lparr>value := v\<rparr>))"
  by (simp add: setNewPlayerValue_def Let_def)

lemma setNewClub_eq:
  "setNewClub p c m =
     (if blank c then (Inl (ValueError MSG_CLUB_EMPTY), p)
      else if float_lt0 m then (Inl (ValueError MSG_TRANSFER_FORMAT), p)
      else (Inr (strip c), p\<lparr>club := strip c, value := m\<rparr>))"
  using club_check_iff_blank [of c]
  by (simp add: setNewClub_def setNewPlayerValue_eq Let_def not_contains_transfer_negative)

lemma main_setNewClub_eq:
  "main_setNewClub p c m =
     (if blank c then (Inl (ValueError MSG_CLUB_EMPTY), p)
      else if float_lt0 m then (Inl (ValueError MSG_TRANSFER_FORMAT), p)
      else (Inr (strip c), p\<lparr>club := strip c, value := m\<rparr>))"
  using club_check_iff_blank [of c]
  by (simp add: main_setNewClub_def Let_def not_contains_transfer_negative)

section \<open>Method calls on the store\<close>

lemma length_roster: "length (roster s) = length (players s)"
  by (simp add: roster_def)

lemma players_call_method: "players (snd (call_method s r m)) = players s"
  by (simp add: call_method_def split_beta)

lemma heap_call_method: "heap (snd (call_method s r m)) = (heap s)[r := snd (m (heap s ! r))]"
  by (simp add: call_method_def split_beta)

lemma fst_call_method: "fst (call_method s r m) = fst (m (heap s ! r))"
  by (simp add: call_method_def split_beta)

lemma call_method_same: "snd (m (heap s ! r)) = heap s ! r \<Longrightarrow> snd (call_method s r m) = s"
  by (simp add: call_method_def split_beta)

lemma well_formed_call_method: "well_formed s \<Longrightarrow> well_formed (snd (call_method s r m))"
  by (simp add: well_formed_def players_call_method heap_call_method)

lemma well_formed_initial_state: "well_formed initial_state"
  by (simp add: well_formed_def initial_state_def)

lemma roster_call_method_at:
  assumes "well_formed s" "i < length (players s)"
  shows "roster (snd (call_method s (players s ! i) m)) ! i = snd (m (heap s ! (players s ! i)))"
  using assms
  by (simp add: roster_def players_call_method heap_call_method well_formed_def list_all_length)

lemma roster_call_method_other:
  assumes "well_formed s" "i < length (players s)" "j < length (players s)" "j \<noteq> i"
  shows "roster (snd (call_method s (players s ! i) m)) ! j = roster s ! j"
  using assms
  by (simp add: roster_def players_call_method heap_call_method well_formed_def nth_eq_iff_index_eq)

section \<open>AdjustValue\<close>

lemma float_add_rounds: "float_add (Finite (2 ^ 53)) (Finite 1) = Finite (2 ^ 53)"
  using round_double_ties_to_even by simp

lemma update_player_value_in_range:
  assumes "0 \<le> i" "i < int (length (players s))"
  shows "update_player_value s i a =
           (Inr (to_dict (roster (snd (call_method s (players s ! nat i)
                   (\<lambda>self. inOrDecrisePlayerValue self a))) ! nat i)),
            snd (call_method s (players s ! nat i) (\<lambda>self. inOrDecrisePlayerValue self a)))"
  using assms
  by (simp add: update_player_value_def split_beta fst_call_method inOrDecrisePlayerValue_eq
        roster_def players_call_method)

lemma roster_update_player_value:
  assumes "well_formed s" "0 \<le> i" "i < int (length (players s))"
  shows "roster (snd (update_player_value s i a)) ! nat i =
           (roster s ! nat i)\<lparr>value :=
             (if float_lt0 a then float_sub (value (roster s ! nat i)) (float_abs a)
              else float_add (value (roster s ! nat i)) a)\<rparr>"
proof -
  have n: "nat i < length (players s)" using assms by simp
  then have "roster s ! nat i = heap s ! (players s ! nat i)"
    by (simp add: roster_def)
  then show ?thesis
    using assms n
    by (simp add: update_player_value_in_range roster_call_method_at inOrDecrisePlayerValue_eq)
qed

text \<open>
  C2. For an index in range, AdjustValue (the handler \<open>update_player_value\<close>) answers
  with the player and leaves at that index the player whose value is the old value minus
  \<open>|delta|\<close> when \<open>delta < 0\<close> and the old value plus \<open>delta\<close> otherwise, in the
  arithmetic of floats; nothing floors the result at zero. On a player of value 100,
  \<open>delta = -5\<close> gives 95 and \<open>delta = 5\<close> gives 105.
\<close>

theorem C2_adjust_value:
  assumes "well_formed s" "0 \<le> i" "i < int (length (players s))"
  shows "fst (update_player_value s i delta) =
           Inr (to_dict ((roster s ! nat i)\<lparr>value :=
                  (if float_lt0 delta
                   then float_sub (value (roster s ! nat i)) (float_abs delta)
                   else float_add (value (roster s ! nat i)) delta)\<rparr>)) \<and>
         roster (snd (update_player_value s i delta)) ! nat i =
           (roster s ! nat i)\<lparr>value :=
             (if float_lt0 delta
              then float_sub (value (roster s ! nat i)) (float_abs delta)
              else float_add (value (roster s ! nat i)) delta)\<rparr> \<and>
         (value (roster s ! nat i) = Finite 100 \<longrightarrow>
            value (roster (snd (update_player_value s i (Finite (- 5)))) ! nat i) = Finite 95 \<and>
            value (roster (snd (update_player_value s i (Finite 5))) ! nat i) = Finite 105)"
proof -
  note upd = roster_update_player_value [OF assms]
  have r95: "round_double 95 = Finite 95"
    using round_double_of_int [of 95] by simp
  have r105: "round_double 105 = Finite 105"
    using round_double_of_int [of 105] by simp
  have at: "roster (snd (update_player_value s i delta)) ! nat i =
           (roster s ! nat i)\<lparr>value :=
             (if float_lt0 delta
              then float_sub (value (roster s ! nat i)) (float_abs delta)
              else float_add (value (roster s ! nat i)) delta)\<rparr>"
    by (rule upd)
  then have "fst (update_player_value s i delta) =
           Inr (to_dict ((roster s ! nat i)\<lparr>value :=
                  (if float_lt0 delta
                   then float_sub (value (roster s ! nat i)) (float_abs delta)
                   else float_add (value (roster s ! nat i)) delta)\<rparr>))"
    using assms by (simp add: update_player_value_in_range)
  moreover have "value (roster s ! nat i) = Finite 100 \<longrightarrow>
           value (roster (snd (update_player_value s i (Finite (- 5)))) ! nat i) = Finite 95 \<and>
           value (roster (snd (update_player_value s i (Finite 5))) ! nat i) = Finite 105"
    by (simp add: upd float_sub_def r95 r105)
  ultimately show ?thesis using at by blast
qed

theorem C2_adjust_value_witness:
  "well_formed \<lparr>heap = [\<lparr>name = ''A'', position = ''FW'', club = ''B'', value = Finite 100\<rparr>], players = [0]\<rparr> \<and>
   (0::int) \<le> 0 \<and>
   (0::int) < int (length (players \<lparr>heap = [\<lparr>name = ''A'', position = ''FW'', club = ''B'', value = Finite 100\<rparr>], players = [0]\<rparr>)) \<and>
   fst (update_player_value \<lparr>heap = [\<lparr>name = ''A'', position = ''FW'', club = ''B'', value = Finite 100\<rparr>], players = [0]\<rparr> 0 (Finite (- 5)))
     = Inr (''A'', ''FW'', ''B'', Finite 95) \<and>
   value (roster (snd (update_player_value \<lparr>heap = [\<lparr>name = ''A'', position = ''FW'', club = ''B'', value = Finite 100\<rparr>], players = [0]\<rparr> 0 (Finite (- 5)))) ! 0) = Finite 95 \<and>
   value (roster (snd (update_player_value \<lparr>heap = [\<lparr>name = ''A'', position = ''FW'', club = ''B'', value = Finite 100\<rparr>], players = [0]\<rparr> 0 (Finite 5))) ! 0) = Finite 105"
proof -
  have r95: "round_double 95 = Finite 95"
    using round_double_of_int [of 95] by simp
  show ?thesis
    using C2_adjust_value [of "\<lparr>heap = [\<lparr>name = ''A'', position = ''FW'', club = ''B'', value = Finite 100\<rparr>], players = [0]\<rparr>" 0 "Finite (- 5)"]
    by (simp add: well_formed_def roster_def to_dict_def float_sub_def r95)
qed

section \<open>Transfer\<close>

lemma ref_in_heap:
  "well_formed s \<Longrightarrow> n < length (players s) \<Longrightarrow> players s ! n < length (heap s)"
  by (simp add: well_formed_def list_all_length)

lemma transfer_player_eq:
  assumes "well_formed s" "0 \<le> i" "i < int (length (players s))"
  shows "transfer_player s i c m =
     (if blank c then (Inl (HTTPException 400 MSG_CLUB_EMPTY), s)
      else if float_lt0 m then (Inl (HTTPException 400 MSG_TRANSFER_FORMAT), s)
      else (Inr (to_dict ((roster s ! nat i)\<lparr>club := strip c, value := m\<rparr>)),
            s\<lparr>heap := (heap s)[players s ! nat i :=
                   (roster s ! nat i)\<lparr>club := strip c, value := m\<rparr>]\<rparr>))"
proof -
  have n: "nat i < length (players s)" using assms by simp
  have r: "roster s ! nat i = heap s ! (players s ! nat i)"
    using n by (simp add: roster_def)
  show ?thesis
    using assms(2,3) ref_in_heap [OF assms(1) n]
    by (simp add: transfer_player_def call_method_def setNewClub_eq r)
qed

lemma main_transfer_player_eq:
  assumes "well_formed s" "0 \<le> i" "i < int (length (players s))"
  shows "main_transfer_player s i c m =
     (if blank c then (Inl (HTTPException 400 MSG_CLUB_EMPTY), s)
      else if float_lt0 m then (Inl (HTTPException 400 MSG_TRANSFER_FORMAT), s)
      else (Inr (to_dict ((roster s ! nat i)\<lparr>club := strip c, value := m\<rparr>)),
            s\<lparr>heap := (heap s)[players s ! nat i :=
                   (roster s ! nat i)\<lparr>club := strip c, value := m\<rparr>]\<rparr>))"
proof -
  have n: "nat i < length (players s)" using assms by simp
  have r: "roster s ! nat i = heap s ! (players s ! nat i)"
    using n by (simp add: roster_def)
  show ?thesis
    using assms(2,3) ref_in_heap [OF assms(1) n]
    by (simp add: main_transfer_player_def call_method_def main_setNewClub_eq r)
qed

lemma roster_heap_update_at:
  assumes "well_formed s" "n < length (players s)"
  shows "roster (s\<lparr>heap := (heap s)[players s ! n := p]\<rparr>) ! n = p"
  using assms ref_in_heap [OF assms] by (simp add: roster_def)

lemma roster_heap_update_other:
  assumes "well_formed s" "n < length (players s)" "j < length (players s)" "j \<noteq> n"
  shows "roster (s\<lparr>heap := (heap s)[players s ! n := p]\<rparr>) ! j = roster s ! j"
  using assms by (simp add: roster_def well_formed_def nth_eq_iff_index_eq)

text \<open>
  C5. For an index in range, a club that is not blank and a fee that is not negative,
  Transfer (the handler \<open>transfer_player\<close>, in the variant that delegates to
  \<open>setNewPlayerValue\<close> and in the variant of src/backend/main.py that assigns directly)
  leaves at that index the player with the club set to the stripped new club and the
  value set to the fee. For an index in range it fails with a ValidationError (status
  400) when the fee is negative or the club is blank; for an index out of range it
  fails with a NotFoundError (status 404).
\<close>

theorem C5_transfer:
  assumes "well_formed s"
  shows "(0 \<le> i \<and> i < int (length (players s)) \<and> \<not> blank newClub \<and> float_ge0 transferFee \<longrightarrow>
            fst (transfer_player s i newClub transferFee) =
              Inr (to_dict ((roster s ! nat i)\<lparr>club := strip newClub, value := transferFee\<rparr>)) \<and>
            club (roster (snd (transfer_player s i newClub transferFee)) ! nat i) = strip newClub \<and>
            value (roster (snd (transfer_player s i newClub transferFee)) ! nat i) = transferFee \<and>
            main_transfer_player s i newClub transferFee = transfer_player s i newClub transferFee) \<and>
         (0 \<le> i \<and> i < int (length (players s)) \<and> (float_lt0 transferFee \<or> blank newClub) \<longrightarrow>
            fails_with is_ValidationError (fst (transfer_player s i newClub transferFee)) \<and>
            fails_with is_ValidationError (fst (main_transfer_player s i newClub transferFee))) \<and>
         (\<not> (0 \<le> i \<and> i < int (length (players s))) \<longrightarrow>
            fails_with is_NotFoundError (fst (transfer_player s i newClub transferFee)) \<and>
            fails_with is_NotFoundError (fst (main_transfer_player s i newClub transferFee)))"
proof (intro conjI impI)
  assume a: "0 \<le> i \<and> i < int (length (players s)) \<and> \<not> blank newClub \<and> float_ge0 transferFee"
  then have n: "nat i < length (players s)" by linarith
  have t: "transfer_player s i newClub transferFee =
      (Inr (to_dict ((roster s ! nat i)\<lparr>club := strip newClub, value := transferFee\<rparr>)),
       s\<lparr>heap := (heap s)[players s ! nat i :=
              (roster s ! nat i)\<lparr>club := strip newClub, value := transferFee\<rparr>]\<rparr>)"
    using a assms by (simp add: transfer_player_eq float_ge0_not_lt0)
  show "fst (transfer_player s i newClub transferFee) =
      Inr (to_dict ((roster s ! nat i)\<lparr>club := strip newClub, value := transferFee\<rparr>))"
    by (simp add: t)
  show "club (roster (snd (transfer_player s i newClub transferFee)) ! nat i) = strip newClub"
    by (simp add: t roster_heap_update_at [OF assms n])
  show "value (roster (snd (transfer_player s i newClub transferFee)) ! nat i) = transferFee"
    by (simp add: t roster_heap_update_at [OF assms n])
  show "main_transfer_player s i newClub transferFee = transfer_player s i newClub transferFee"
    using a assms by (simp add: transfer_player_eq main_transfer_player_eq)
next
  assume a: "0 \<le> i \<and> i < int (length (players s)) \<and> (float_lt0 transferFee \<or> blank newClub)"
  then show "fails_with is_ValidationError (fst (transfer_player s i newClub transferFee))"
    using assms by (auto simp: transfer_player_eq fails_with_def is_ValidationError_def)
  from a show "fails_with is_ValidationError (fst (main_transfer_player s i newClub transferFee))"
    using assms by (auto simp: main_transfer_player_eq fails_with_def is_ValidationError_def)
next
  assume a: "\<not> (0 \<le> i \<and> i < int (length (players s)))"
  then show "fails_with is_NotFoundError (fst (transfer_player s i newClub transferFee))"
    by (simp add: transfer_player_def fails_with_def is_NotFoundError_def)
  from a show "fails_with is_NotFoundError (fst (main_transfer_player s i newClub transferFee))"
    by (simp add: main_transfer_player_def fails_with_def is_NotFoundError_def)
qed


theorem C5_transfer_witness:
  "well_formed initial_state \<and> (0::int) \<le> 0 \<and> 0 < int (length (players initial_state)) \<and>
   \<not> blank '' Real Madrid '' \<and> float_ge0 (Finite 200) \<and>
   fst (transfer_player initial_state 0 '' Real Madrid '' (Finite 200)) =
     Inr (''Erling Haaland'', ''FW'', ''Real Madrid'', Finite 200) \<and>
   club (roster (snd (transfer_player initial_state 0 '' Real Madrid '' (Finite 200))) ! 0) = ''Real Madrid'' \<and>
   value (roster (snd (transfer_player initial_state 0 '' Real Madrid '' (Finite 200))) ! 0) = Finite 200 \<and>
   float_lt0 (Finite (- 1)) \<and>
   fails_with is_ValidationError (fst (transfer_player initial_state 0 ''PSG'' (Finite (- 1)))) \<and>
   blank ''  '' \<and>
   fails_with is_ValidationError (fst (main_transfer_player initial_state 0 ''  '' (Finite 10))) \<and>
   \<not> (5 < int (length (players initial_state))) \<and>
   fails_with is_NotFoundError (fst (transfer_player initial_state 5 ''PSG'' (Finite 10))) \<and>
   fails_with is_NotFoundError (fst (main_transfer_player initial_state (- 1) ''PSG'' (Finite 10)))"
proof -
  have b: "\<not> blank '' Real Madrid ''" "blank ''  ''"
    by (simp_all add: blank_def isspace_def)
  have st: "strip '' Real Madrid '' = ''Real Madrid''"
    by (simp add: strip_def lstrip_def rstrip_def isspace_def)
  have r0: "roster initial_state ! 0 =
      \<lparr>name = ''Erling Haaland'', position = ''FW'', club = ''Manchester City'', value = Finite 180\<rparr>"
    by (simp add: roster_def initial_state_def)
  have len: "length (players initial_state) = 5"
    by (simp add: initial_state_def)
  show ?thesis
    using C5_transfer [OF well_formed_initial_state, of 0 "'' Real Madrid ''" "Finite 200"]
      C5_transfer [OF well_formed_initial_state, of 0 "''PSG''" "Finite (- 1)"]
      C5_transfer [OF well_formed_initial_state, of 0 "''  ''" "Finite 10"]
      C5_transfer [OF well_formed_initial_state, of 5 "''PSG''" "Finite 10"]
      C5_transfer [OF well_formed_initial_state, of "- 1" "''PSG''" "Finite 10"]
    by (simp add: b st r0 len to_dict_def well_formed_initial_state)
qed

text \<open>
  C10. In \<open>setNewClub\<close> of src/backend/app/models.py the nested call of
  \<open>setNewPlayerValue\<close> runs only behind the guard on the fee: with a fee that is not
  negative the nested call returns, so its error branch is never taken there. A
  transfer that passes the validation (club not blank, fee not negative) returns with
  club and value both set; and whenever \<open>setNewClub\<close> raises, the player is as before:
  no outcome leaves the club changed and the value not.
\<close>

theorem C10_transfer_no_partial_update:
  "(float_ge0 transferFee \<longrightarrow>
      setNewPlayerValue q transferFee = (Inr transferFee, q\<lparr>value := transferFee\<rparr>)) \<and>
   (\<not> blank newClub \<and> float_ge0 transferFee \<longrightarrow>
      setNewClub p newClub transferFee =
        (Inr (strip newClub), p\<lparr>club := strip newClub, value := transferFee\<rparr>)) \<and>
   (case fst (setNewClub p newClub transferFee) of
      Inl e \<Rightarrow> snd (setNewClub p newClub transferFee) = p
    | Inr c \<Rightarrow> snd (setNewClub p newClub transferFee) =
               p\<lparr>club := strip newClub, value := transferFee\<rparr>)"
  by (simp add: setNewPlayerValue_eq setNewClub_eq float_ge0_not_lt0)

theorem C10_transfer_no_partial_update_witness:
  "float_ge0 (Finite 220) \<and> \<not> blank ''PSG'' \<and>
   setNewPlayerValue \<lparr>name = ''Erling Haaland'', position = ''FW'', club = ''PSG'', value = Finite 150\<rparr> (Finite 220) =
     (Inr (Finite 220), \<lparr>name = ''Erling Haaland'', position = ''FW'', club = ''PSG'', value = Finite 220\<rparr>) \<and>
   setNewClub \<lparr>name = ''Erling Haaland'', position = ''FW'', club = ''Manchester City'', value = Finite 150\<rparr> ''PSG'' (Finite 220) =
     (Inr ''PSG'', \<lparr>name = ''Erling Haaland'', position = ''FW'', club = ''PSG'', value = Finite 220\<rparr>) \<and>
   setNewClub \<lparr>name = ''Erling Haaland'', position = ''FW'', club = ''Manchester City'', value = Finite 150\<rparr> ''PSG'' (Finite (- 1)) =
     (Inl (ValueError MSG_TRANSFER_FORMAT),
      \<lparr>name = ''Erling Haaland'', position = ''FW'', club = ''Manchester City'', value = Finite 150\<rparr>)"
proof -
  have b: "\<not> blank ''PSG''"
    by (simp add: blank_def isspace_def)
  have st: "strip ''PSG'' = ''PSG''"
    by (simp add: strip_def lstrip_def rstrip_def isspace_def)
  have neg: "setNewClub \<lparr>name = ''Erling Haaland'', position = ''FW'', club = ''Manchester City'', value = Finite 150\<rparr> ''PSG'' (Finite (- 1)) =
     (Inl (ValueError MSG_TRANSFER_FORMAT),
      \<lparr>name = ''Erling Haaland'', position = ''FW'', club = ''Manchester City'', value = Finite 150\<rparr>)"
    by (simp add: setNewClub_def setNewPlayerValue_def st MSG_TRANSFER_NEGATIVE_def MSG_NEGATIVE_def)
  show ?thesis
    using C10_transfer_no_partial_update
      [of "Finite 220" "\<lparr>name = ''Erling Haaland'', position = ''FW'', club = ''PSG'', value = Finite 150\<rparr>" "''PSG''"
          "\<lparr>name = ''Erling Haaland'', position = ''FW'', club = ''Manchester City'', value = Finite 150\<rparr>"]
    by (simp add: b st neg)
qed

section \<open>Indices out of range\<close>






section \<open>Create and List\<close>

lemma create_player_cases:
  "create_player s d =
     (if float_lt0 (data_value d) then (Inl (HTTPException 400 MSG_NEGATIVE), s)
      else if data_name d = [] \<or> data_position d = [] \<or> data_club d = []
        then (Inl (HTTPException 400 MSG_EMPTY), s)
      else if data_position d \<notin> VALID_POSITIONS then (Inl (HTTPException 400 MSG_POSITION), s)
      else (Inr (to_dict \<lparr>name = strip (data_name d), position = strip (data_position d),
                           club = strip (data_club d), value = data_value d\<rparr>),
            \<lparr>heap = heap s @ [\<lparr>name = strip (data_name d), position = strip (data_position d),
                                club = strip (data_club d), value = data_value d\<rparr>],
             players = players s @ [length (heap s)]\<rparr>))"
  by (simp add: create_player_def Player_init_def Let_def)

lemma roster_append:
  assumes "well_formed s"
  shows "roster \<lparr>heap = heap s @ [p], players = players s @ [length (heap s)]\<rparr> = roster s @ [p]"
proof -
  have "\<forall>r \<in> set (players s). r < length (heap s)"
    using assms by (simp add: well_formed_def list_all_iff)
  then have "map (\<lambda>r. (heap s @ [p]) ! r) (players s) = map (\<lambda>r. heap s ! r) (players s)"
    by (simp add: nth_append)
  then show ?thesis by (simp add: roster_def)
qed

lemma well_formed_append:
  assumes "well_formed s"
  shows "well_formed \<lparr>heap = heap s @ [p], players = players s @ [length (heap s)]\<rparr>"
proof -
  have b: "\<forall>r \<in> set (players s). r < length (heap s)"
    using assms by (simp add: well_formed_def list_all_iff)
  then have "length (heap s) \<notin> set (players s)" by auto
  then show ?thesis
    using assms b by (auto simp: well_formed_def list_all_iff)
qed

lemma get_players_eq: "get_players s = (Inr (map to_dict (roster s)), s)"
  by (simp add: get_players_def roster_def)

text \<open>
  C8. After a successful Create (the handler \<open>create_player\<close> answers with the new
  player) the roster is the previous roster with the new player, built from the
  stripped fields of the request, appended as its last element. List (the handler
  \<open>get_players\<close>) answers with the records of the roster in list order, which is the
  order of insertion, and returns the state it was given.
\<close>

theorem C8_create_appends:
  assumes "well_formed s" "create_player s d = (Inr created, s')"
  shows "roster s' = roster s @ [last (roster s')] \<and>
         to_dict (last (roster s')) = created \<and>
         last (roster s') = \<lparr>name = strip (data_name d), position = strip (data_position d),
                               club = strip (data_club d), value = data_value d\<rparr> \<and>
         get_players s' = (Inr (map to_dict (roster s) @ [created]), s') \<and>
         get_players s = (Inr (map to_dict (roster s)), s)"
proof -
  let ?p = "\<lparr>name = strip (data_name d), position = strip (data_position d),
              club = strip (data_club d), value = data_value d\<rparr>"
  have "created = to_dict ?p \<and>
      s' = \<lparr>heap = heap s @ [?p], players = players s @ [length (heap s)]\<rparr>"
    using assms(2) by (simp add: create_player_cases split: if_splits)
  then have c: "created = to_dict ?p" and r: "roster s' = roster s @ [?p]"
    using roster_append [OF assms(1)] by simp_all
  show ?thesis
    by (simp add: r c get_players_eq)
qed


theorem C8_create_appends_witness:
  "well_formed initial_state \<and>
   create_player initial_state
     \<lparr>data_name = '' Pedri'', data_position = ''CM'', data_club = ''Barcelona'', data_value = Finite 100\<rparr> =
     (Inr (''Pedri'', ''CM'', ''Barcelona'', Finite 100),
      snd (create_player initial_state
        \<lparr>data_name = '' Pedri'', data_position = ''CM'', data_club = ''Barcelona'', data_value = Finite 100\<rparr>)) \<and>
   roster (snd (create_player initial_state
        \<lparr>data_name = '' Pedri'', data_position = ''CM'', data_club = ''Barcelona'', data_value = Finite 100\<rparr>)) =
     roster initial_state @
       [\<lparr>name = ''Pedri'', position = ''CM'', club = ''Barcelona'', value = Finite 100\<rparr>] \<and>
   fst (get_players (snd (create_player initial_state
        \<lparr>data_name = '' Pedri'', data_position = ''CM'', data_club = ''Barcelona'', data_value = Finite 100\<rparr>))) =
     Inr (map to_dict (roster initial_state) @ [(''Pedri'', ''CM'', ''Barcelona'', Finite 100)])"
proof -
  let ?d = "\<lparr>data_name = '' Pedri'', data_position = ''CM'', data_club = ''Barcelona'',
              data_value = Finite 100\<rparr>"
  have st: "strip '' Pedri'' = ''Pedri''" "strip ''CM'' = ''CM''" "strip ''Barcelona'' = ''Barcelona''"
    by (simp_all add: strip_def lstrip_def rstrip_def isspace_def)
  have h: "create_player initial_state ?d =
      (Inr (''Pedri'', ''CM'', ''Barcelona'', Finite 100), snd (create_player initial_state ?d))"
    by (simp add: create_player_cases VALID_POSITIONS_def st to_dict_def)
  note c = C8_create_appends [OF well_formed_initial_state h]
  have l: "last (roster (snd (create_player initial_state ?d))) =
      \<lparr>name = ''Pedri'', position = ''CM'', club = ''Barcelona'', value = Finite 100\<rparr>"
    using c by (simp add: st)
  have r: "roster (snd (create_player initial_state ?d)) =
      roster initial_state @ [\<lparr>name = ''Pedri'', position = ''CM'', club = ''Barcelona'', value = Finite 100\<rparr>]"
    using c l by simp
  have g: "fst (get_players (snd (create_player initial_state ?d))) =
      Inr (map to_dict (roster initial_state) @ [(''Pedri'', ''CM'', ''Barcelona'', Finite 100)])"
    using c by simp
  show ?thesis
    using well_formed_initial_state h r g by simp
qed

section \<open>Delete\<close>

lemma delete_player_in_range:
  assumes "0 \<le> i" "i < int (length (players s))"
  shows "delete_player s i =
           (Inr (to_dict (heap s ! (players s ! nat i))),
            s\<lparr>players := take (nat i) (players s) @ drop (Suc (nat i)) (players s)\<rparr>)"
  using assms by (simp add: delete_player_def list_pop_def)

lemma roster_players_update: "roster (s\<lparr>players := xs\<rparr>) = map (\<lambda>r. heap s ! r) xs"
  by (simp add: roster_def)

lemma nth_not_in_rest:
  assumes "distinct xs" "n < length xs"
  shows "xs ! n \<notin> set (take n xs @ drop (Suc n) xs)"
proof -
  have "distinct (take n xs @ xs ! n # drop (Suc n) xs)"
    using assms id_take_nth_drop [of n xs] by simp
  then show ?thesis by auto
qed

lemma nth_without_before: "j < n \<Longrightarrow> n < length xs \<Longrightarrow> (take n xs @ drop (Suc n) xs) ! j = xs ! j"
  by (simp add: nth_append)

lemma nth_without_after:
  "n \<le> j \<Longrightarrow> Suc j < length xs \<Longrightarrow> (take n xs @ drop (Suc n) xs) ! j = xs ! Suc j"
  by (simp add: nth_append min_def)

lemma in_rest_iff:
  assumes "n < length xs"
  shows "x \<in> set (take n xs @ drop (Suc n) xs) \<longleftrightarrow> (\<exists>j < length xs. j \<noteq> n \<and> xs ! j = x)"
proof
  assume "x \<in> set (take n xs @ drop (Suc n) xs)"
  then obtain k where k: "k < length (take n xs @ drop (Suc n) xs)"
    and x: "(take n xs @ drop (Suc n) xs) ! k = x"
    by (metis in_set_conv_nth)
  show "\<exists>j < length xs. j \<noteq> n \<and> xs ! j = x"
  proof (cases "k < n")
    case True
    then have "xs ! k = x" using x assms by (simp add: nth_without_before)
    moreover have "k < length xs" "k \<noteq> n" using True assms by simp_all
    ultimately show ?thesis by blast
  next
    case False
    then have "Suc k < length xs" using k assms by (simp add: min_def)
    moreover from this have "xs ! Suc k = x"
      using x False by (simp add: nth_without_after)
    moreover have "Suc k \<noteq> n" using False by simp
    ultimately show ?thesis by blast
  qed
next
  assume "\<exists>j < length xs. j \<noteq> n \<and> xs ! j = x"
  then obtain j where j: "j < length xs" "j \<noteq> n" "xs ! j = x" by blast
  show "x \<in> set (take n xs @ drop (Suc n) xs)"
  proof (cases "j < n")
    case True
    then have "(take n xs @ drop (Suc n) xs) ! j = x"
      using j assms by (simp add: nth_without_before)
    moreover have "j < length (take n xs @ drop (Suc n) xs)"
      using True assms by (simp add: min_def)
    ultimately show ?thesis by (metis nth_mem)
  next
    case False
    then obtain k where k: "j = Suc k" "n \<le> k"
      using j(2) by (cases j) auto
    then have "(take n xs @ drop (Suc n) xs) ! k = x"
      using j by (simp add: nth_without_after)
    moreover have "k < length (take n xs @ drop (Suc n) xs)"
      using k j(1) assms by (simp add: min_def)
    ultimately show ?thesis by (metis nth_mem)
  qed
qed

text \<open>
  C6, as stated, fails for the roster of records: after a second player with the fields
  of the first one is created, Delete at index 0 answers with the first record, and a
  record equal to it is still in the roster.
\<close>

theorem C6_equal_record_remains:
  "reachable (snd (create_player initial_state
     \<lparr>data_name = ''Erling Haaland'', data_position = ''FW'', data_club = ''Manchester City'',
        data_value = Finite 180\<rparr>)) \<and>
   fst (delete_player (snd (create_player initial_state
     \<lparr>data_name = ''Erling Haaland'', data_position = ''FW'', data_club = ''Manchester City'',
        data_value = Finite 180\<rparr>)) 0) =
     Inr (''Erling Haaland'', ''FW'', ''Manchester City'', Finite 180) \<and>
   roster (snd (create_player initial_state
     \<lparr>data_name = ''Erling Haaland'', data_position = ''FW'', data_club = ''Manchester City'',
        data_value = Finite 180\<rparr>)) ! 0 =
     \<lparr>name = ''Erling Haaland'', position = ''FW'', club = ''Manchester City'', value = Finite 180\<rparr> \<and>
   \<lparr>name = ''Erling Haaland'', position = ''FW'', club = ''Manchester City'', value = Finite 180\<rparr>
     \<in> set (roster (snd (delete_player (snd (create_player initial_state
       \<lparr>data_name = ''Erling Haaland'', data_position = ''FW'', data_club = ''Manchester City'',
          data_value = Finite 180\<rparr>)) 0)))"
proof -
  let ?d = "\<lparr>data_name = ''Erling Haaland'', data_position = ''FW'',
              data_club = ''Manchester City'', data_value = Finite 180\<rparr>"
  let ?p = "\<lparr>name = ''Erling Haaland'', position = ''FW'', club = ''Manchester City'',
              value = Finite 180\<rparr>"
  have st: "strip ''Erling Haaland'' = ''Erling Haaland''" "strip ''FW'' = ''FW''"
    "strip ''Manchester City'' = ''Manchester City''"
    by (simp_all add: strip_def lstrip_def rstrip_def isspace_def)
  have l: "players initial_state = [0, 1, 2, 3, 4]" "length (heap initial_state) = 5"
    by (simp_all add: initial_state_def)
  have c: "snd (create_player initial_state ?d) =
      \<lparr>heap = heap initial_state @ [?p], players = [0, 1, 2, 3, 4, 5]\<rparr>"
    by (simp add: create_player_cases VALID_POSITIONS_def st l)
  have r: "reachable (snd (create_player initial_state ?d))"
    by (rule reach_create) (rule reach_init)
  have d: "delete_player \<lparr>heap = heap initial_state @ [?p], players = [0, 1, 2, 3, 4, 5]\<rparr> 0 =
      (Inr (to_dict ?p), \<lparr>heap = heap initial_state @ [?p], players = [1, 2, 3, 4, 5]\<rparr>)"
    by (simp add: delete_player_def list_pop_def initial_state_def)
  have f: "roster \<lparr>heap = heap initial_state @ [?p], players = [0, 1, 2, 3, 4, 5]\<rparr> ! 0 = ?p"
    by (simp add: roster_def initial_state_def)
  have m: "?p \<in> set (roster \<lparr>heap = heap initial_state @ [?p], players = [1, 2, 3, 4, 5]\<rparr>)"
    by (simp add: roster_def initial_state_def)
  show ?thesis
    using r f m unfolding c d by (simp add: to_dict_def)
qed

text \<open>
  C6, amended. For an index in range, Delete (the handler \<open>delete_player\<close>) answers with
  the record at that index and removes it: the roster afterwards is the old one without
  that position, exactly one shorter, the removed object is no longer in the list, the
  entries before the index keep their positions and each entry after it moves down by
  one; the store is untouched. A record equal to the removed one is in the roster
  afterwards exactly when another entry of the roster had it before: players have no
  identity beyond their position. For an index out of range Delete fails with a
  NotFoundError and changes nothing.
\<close>

theorem C6_delete_amended:
  assumes "well_formed s"
  shows "(0 \<le> i \<and> i < int (length (players s)) \<longrightarrow>
            fst (delete_player s i) = Inr (to_dict (roster s ! nat i)) \<and>
            roster (snd (delete_player s i)) =
              take (nat i) (roster s) @ drop (Suc (nat i)) (roster s) \<and>
            Suc (length (roster (snd (delete_player s i)))) = length (roster s) \<and>
            players s ! nat i \<notin> set (players (snd (delete_player s i))) \<and>
            (roster s ! nat i \<in> set (roster (snd (delete_player s i))) \<longleftrightarrow>
               (\<exists>j < length (roster s). j \<noteq> nat i \<and> roster s ! j = roster s ! nat i)) \<and>
            (\<forall>j. j < nat i \<longrightarrow> roster (snd (delete_player s i)) ! j = roster s ! j) \<and>
            (\<forall>j. nat i \<le> j \<and> Suc j < length (roster s) \<longrightarrow>
                 roster (snd (delete_player s i)) ! j = roster s ! Suc j) \<and>
            heap (snd (delete_player s i)) = heap s) \<and>
         (i < 0 \<or> int (length (players s)) \<le> i \<longrightarrow>
            fails_with is_NotFoundError (fst (delete_player s i)) \<and>
            snd (delete_player s i) = s)"
proof (intro conjI impI)
  assume a: "0 \<le> i \<and> i < int (length (players s))"
  then have n: "nat i < length (players s)" by linarith
  then have nr: "nat i < length (roster s)" by (simp add: length_roster)
  have d: "delete_player s i =
      (Inr (to_dict (heap s ! (players s ! nat i))),
       s\<lparr>players := take (nat i) (players s) @ drop (Suc (nat i)) (players s)\<rparr>)"
    using a by (simp add: delete_player_in_range)
  have r: "roster (snd (delete_player s i)) =
      take (nat i) (roster s) @ drop (Suc (nat i)) (roster s)"
    by (simp add: d roster_players_update roster_def take_map drop_map)
  show "fst (delete_player s i) = Inr (to_dict (roster s ! nat i))"
    using n by (simp add: d roster_def)
  show "roster (snd (delete_player s i)) =
      take (nat i) (roster s) @ drop (Suc (nat i)) (roster s)"
    by (rule r)
  show "Suc (length (roster (snd (delete_player s i)))) = length (roster s)"
    using nr by (simp add: r min_def)
  show "players s ! nat i \<notin> set (players (snd (delete_player s i)))"
    using nth_not_in_rest [of "players s" "nat i"] assms n
    by (simp add: d well_formed_def)
  show "roster s ! nat i \<in> set (roster (snd (delete_player s i))) \<longleftrightarrow>
      (\<exists>j < length (roster s). j \<noteq> nat i \<and> roster s ! j = roster s ! nat i)"
    unfolding r by (rule in_rest_iff [OF nr])
  show "\<forall>j. j < nat i \<longrightarrow> roster (snd (delete_player s i)) ! j = roster s ! j"
    using nr by (simp add: r nth_without_before)
  show "\<forall>j. nat i \<le> j \<and> Suc j < length (roster s) \<longrightarrow>
      roster (snd (delete_player s i)) ! j = roster s ! Suc j"
    by (simp add: r nth_without_after)
  show "heap (snd (delete_player s i)) = heap s"
    by (simp add: d)
next
  assume "i < 0 \<or> int (length (players s)) \<le> i"
  then have o: "\<not> (0 \<le> i \<and> i < int (length (players s)))" by linarith
  then show "fails_with is_NotFoundError (fst (delete_player s i))"
    by (simp add: delete_player_def fails_with_def is_NotFoundError_def)
  from o show "snd (delete_player s i) = s"
    by (simp add: delete_player_def)
qed

theorem C6_delete_amended_witness:
  "well_formed initial_state \<and> (0::int) \<le> 1 \<and> 1 < int (length (players initial_state)) \<and>
   fst (delete_player initial_state 1) = Inr (''Jude Bellingham'', ''CM'', ''Real Madrid'', Finite 150) \<and>
   players (snd (delete_player initial_state 1)) = [0, 2, 3, 4] \<and>
   Suc (length (roster (snd (delete_player initial_state 1)))) = length (roster initial_state) \<and>
   players initial_state ! nat 1 \<notin> set (players (snd (delete_player initial_state 1))) \<and>
   roster initial_state ! nat 1 \<notin> set (roster (snd (delete_player initial_state 1))) \<and>
   roster (snd (delete_player initial_state 1)) ! 0 = roster initial_state ! 0 \<and>
   roster (snd (delete_player initial_state 1)) ! 1 = roster initial_state ! 2 \<and>
   roster (snd (delete_player initial_state 1)) ! 3 = roster initial_state ! 4 \<and>
   int (length (players initial_state)) \<le> 7 \<and>
   fails_with is_NotFoundError (fst (delete_player initial_state 7)) \<and>
   snd (delete_player initial_state 7) = initial_state"
proof -
  have len: "length (players initial_state) = 5"
    by (simp add: initial_state_def)
  have hyp: "(0::int) \<le> 1 \<and> 1 < int (length (players initial_state))"
    by (simp add: len)
  have out: "(7::int) < 0 \<or> int (length (players initial_state)) \<le> 7"
    by (simp add: len)
  note del = mp [OF conjunct1 [OF C6_delete_amended [OF well_formed_initial_state, of 1]] hyp]
  note nf = mp [OF conjunct2 [OF C6_delete_amended [OF well_formed_initial_state, of 7]] out]
  have r: "roster initial_state ! nat 1 =
      \<lparr>name = ''Jude Bellingham'', position = ''CM'', club = ''Real Madrid'', value = Finite 150\<rparr>"
    by (simp add: roster_def initial_state_def)
  have d: "players (snd (delete_player initial_state 1)) = [0, 2, 3, 4]"
    by (simp add: delete_player_def list_pop_def initial_state_def)
  have c1: "fst (delete_player initial_state 1) =
      Inr (''Jude Bellingham'', ''CM'', ''Real Madrid'', Finite 150)"
    using del r by (simp add: to_dict_def)
  have c2: "Suc (length (roster (snd (delete_player initial_state 1)))) =
      length (roster initial_state)"
    using del by blast
  have c3: "players initial_state ! nat 1 \<notin> set (players (snd (delete_player initial_state 1)))"
    using del by blast
  have before: "\<forall>j. j < nat 1 \<longrightarrow>
      roster (snd (delete_player initial_state 1)) ! j = roster initial_state ! j"
    using del by blast
  have after: "\<forall>j. nat 1 \<le> j \<and> Suc j < length (roster initial_state) \<longrightarrow>
      roster (snd (delete_player initial_state 1)) ! j = roster initial_state ! Suc j"
    using del by blast
  have c4: "roster (snd (delete_player initial_state 1)) ! 0 = roster initial_state ! 0"
    using before by simp
  have c5: "roster (snd (delete_player initial_state 1)) ! 1 = roster initial_state ! 2"
    using after [rule_format, of 1] by (simp add: length_roster len numeral_2_eq_2)
  have c6: "roster (snd (delete_player initial_state 1)) ! 3 = roster initial_state ! 4"
    using after [rule_format, of 3] by (simp add: length_roster len eval_nat_numeral)
  have c7: "roster initial_state ! nat 1 \<notin> set (roster (snd (delete_player initial_state 1)))"
    by (simp add: delete_player_def list_pop_def roster_def initial_state_def)
  show ?thesis
    using well_formed_initial_state hyp out d c1 c2 c3 c4 c5 c6 c7 nf by simp
qed

section \<open>What the mutations leave alone\<close>

lemma snd_update_player_value:
  assumes "0 \<le> i" "i < int (length (players s))"
  shows "snd (update_player_value s i a) =
           snd (call_method s (players s ! nat i) (\<lambda>self. inOrDecrisePlayerValue self a))"
  using assms by (simp add: update_player_value_in_range)

lemma snd_transfer_player:
  assumes "0 \<le> i" "i < int (length (players s))"
  shows "snd (transfer_player s i c m) =
           snd (call_method s (players s ! nat i) (\<lambda>self. setNewClub self c m))"
  using assms
  by (simp add: transfer_player_def split_beta split: sum.split exn.split)

lemma snd_main_transfer_player:
  assumes "0 \<le> i" "i < int (length (players s))"
  shows "snd (main_transfer_player s i c m) =
           snd (call_method s (players s ! nat i) (\<lambda>self. main_setNewClub self c m))"
  using assms
  by (simp add: main_transfer_player_def split_beta split: sum.split exn.split)

lemma roster_call_method_nth:
  assumes "well_formed s" "n < length (players s)" "j < length (players s)"
  shows "roster (snd (call_method s (players s ! n) m)) ! j =
           (if j = n then snd (m (roster s ! n)) else roster s ! j)"
proof (cases "j = n")
  case True
  then show ?thesis
    using roster_call_method_at [OF assms(1,2), of m] assms(2) by (simp add: roster_def)
next
  case False
  then show ?thesis
    using roster_call_method_other [OF assms(1,2,3)] by simp
qed

text \<open>
  C9. For an index in range of a well-formed state: AdjustValue
  (\<open>update_player_value\<close>) and SetAbsoluteValue (the call of \<open>setNewPlayerValue\<close> on the
  object at that index) leave the name, position and club of that player as they were;
  Transfer (\<open>transfer_player\<close>, both variants) leaves its name and position; and all of
  them leave every other entry of the roster, and the length of the roster, unchanged.
\<close>

theorem C9_frame:
  assumes "well_formed s" "0 \<le> i" "i < int (length (players s))"
  shows "name (roster (snd (update_player_value s i delta)) ! nat i) = name (roster s ! nat i) \<and>
         position (roster (snd (update_player_value s i delta)) ! nat i) = position (roster s ! nat i) \<and>
         club (roster (snd (update_player_value s i delta)) ! nat i) = club (roster s ! nat i) \<and>
         name (roster (snd (call_method s (players s ! nat i)
                 (\<lambda>self. setNewPlayerValue self v))) ! nat i) = name (roster s ! nat i) \<and>
         position (roster (snd (call_method s (players s ! nat i)
                 (\<lambda>self. setNewPlayerValue self v))) ! nat i) = position (roster s ! nat i) \<and>
         club (roster (snd (call_method s (players s ! nat i)
                 (\<lambda>self. setNewPlayerValue self v))) ! nat i) = club (roster s ! nat i) \<and>
         name (roster (snd (transfer_player s i newClub fee)) ! nat i) = name (roster s ! nat i) \<and>
         position (roster (snd (transfer_player s i newClub fee)) ! nat i) =
           position (roster s ! nat i) \<and>
         name (roster (snd (main_transfer_player s i newClub fee)) ! nat i) =
           name (roster s ! nat i) \<and>
         position (roster (snd (main_transfer_player s i newClub fee)) ! nat i) =
           position (roster s ! nat i) \<and>
         (\<forall>j. j < length (roster s) \<and> j \<noteq> nat i \<longrightarrow>
            roster (snd (update_player_value s i delta)) ! j = roster s ! j \<and>
            roster (snd (call_method s (players s ! nat i)
                 (\<lambda>self. setNewPlayerValue self v))) ! j = roster s ! j \<and>
            roster (snd (transfer_player s i newClub fee)) ! j = roster s ! j \<and>
            roster (snd (main_transfer_player s i newClub fee)) ! j = roster s ! j) \<and>
         length (roster (snd (update_player_value s i delta))) = length (roster s) \<and>
         length (roster (snd (call_method s (players s ! nat i)
                 (\<lambda>self. setNewPlayerValue self v)))) = length (roster s) \<and>
         length (roster (snd (transfer_player s i newClub fee))) = length (roster s) \<and>
         length (roster (snd (main_transfer_player s i newClub fee))) = length (roster s)"
proof -
  have n: "nat i < length (players s)" using assms by linarith
  note at = roster_call_method_nth [OF assms(1) n n]
  note su = snd_update_player_value [OF assms(2,3)]
  note st = snd_transfer_player [OF assms(2,3)]
  note sm = snd_main_transfer_player [OF assms(2,3)]
  have target:
    "name (roster (snd (update_player_value s i delta)) ! nat i) = name (roster s ! nat i)"
    "position (roster (snd (update_player_value s i delta)) ! nat i) = position (roster s ! nat i)"
    "club (roster (snd (update_player_value s i delta)) ! nat i) = club (roster s ! nat i)"
    "name (roster (snd (call_method s (players s ! nat i)
        (\<lambda>self. setNewPlayerValue self v))) ! nat i) = name (roster s ! nat i)"
    "position (roster (snd (call_method s (players s ! nat i)
        (\<lambda>self. setNewPlayerValue self v))) ! nat i) = position (roster s ! nat i)"
    "club (roster (snd (call_method s (players s ! nat i)
        (\<lambda>self. setNewPlayerValue self v))) ! nat i) = club (roster s ! nat i)"
    "name (roster (snd (transfer_player s i newClub fee)) ! nat i) = name (roster s ! nat i)"
    "position (roster (snd (transfer_player s i newClub fee)) ! nat i) = position (roster s ! nat i)"
    "name (roster (snd (main_transfer_player s i newClub fee)) ! nat i) = name (roster s ! nat i)"
    "position (roster (snd (main_transfer_player s i newClub fee)) ! nat i) =
       position (roster s ! nat i)"
    by (simp_all add: su st sm at inOrDecrisePlayerValue_eq setNewPlayerValue_eq setNewClub_eq
          main_setNewClub_eq)
  have others: "\<forall>j. j < length (roster s) \<and> j \<noteq> nat i \<longrightarrow>
      roster (snd (update_player_value s i delta)) ! j = roster s ! j \<and>
      roster (snd (call_method s (players s ! nat i)
          (\<lambda>self. setNewPlayerValue self v))) ! j = roster s ! j \<and>
      roster (snd (transfer_player s i newClub fee)) ! j = roster s ! j \<and>
      roster (snd (main_transfer_player s i newClub fee)) ! j = roster s ! j"
    using assms(1) n
    by (simp add: su st sm roster_call_method_other length_roster)
  have lens:
    "length (roster (snd (update_player_value s i delta))) = length (roster s)"
    "length (roster (snd (call_method s (players s ! nat i)
        (\<lambda>self. setNewPlayerValue self v)))) = length (roster s)"
    "length (roster (snd (transfer_player s i newClub fee))) = length (roster s)"
    "length (roster (snd (main_transfer_player s i newClub fee))) = length (roster s)"
    by (simp_all add: su st sm length_roster players_call_method)
  show ?thesis
    using target others lens by blast
qed


theorem C9_frame_witness:
  "well_formed initial_state \<and> (0::int) \<le> 1 \<and> 1 < int (length (players initial_state)) \<and>
   name (roster (snd (update_player_value initial_state 1 (Finite (- 5)))) ! nat 1) = ''Jude Bellingham'' \<and>
   club (roster (snd (update_player_value initial_state 1 (Finite (- 5)))) ! nat 1) = ''Real Madrid'' \<and>
   position (roster (snd (call_method initial_state (players initial_state ! nat 1)
       (\<lambda>self. setNewPlayerValue self (Finite 7)))) ! nat 1) = ''CM'' \<and>
   name (roster (snd (transfer_player initial_state 1 ''PSG'' (Finite 10))) ! nat 1) = ''Jude Bellingham'' \<and>
   position (roster (snd (main_transfer_player initial_state 1 ''PSG'' (Finite 10))) ! nat 1) = ''CM'' \<and>
   roster (snd (update_player_value initial_state 1 (Finite (- 5)))) ! 0 = roster initial_state ! 0 \<and>
   roster (snd (call_method initial_state (players initial_state ! nat 1)
       (\<lambda>self. setNewPlayerValue self (Finite 7)))) ! 0 = roster initial_state ! 0 \<and>
   roster (snd (transfer_player initial_state 1 ''PSG'' (Finite 10))) ! 0 = roster initial_state ! 0 \<and>
   length (roster (snd (transfer_player initial_state 1 ''PSG'' (Finite 10)))) = 5"
proof -
  have len: "length (players initial_state) = 5"
    by (simp add: initial_state_def)
  have h1: "(0::int) \<le> 1" and h2: "1 < int (length (players initial_state))"
    by (simp_all add: len)
  have r: "roster initial_state ! nat 1 =
      \<lparr>name = ''Jude Bellingham'', position = ''CM'', club = ''Real Madrid'', value = Finite 150\<rparr>"
    by (simp add: roster_def initial_state_def)
  note f = C9_frame [OF well_formed_initial_state h1 h2, of "Finite (- 5)" "Finite 7" "''PSG''" "Finite 10"]
  have o: "(0::nat) < length (roster initial_state) \<and> 0 \<noteq> nat 1"
    by (simp add: length_roster len)
  have others: "roster (snd (update_player_value initial_state 1 (Finite (- 5)))) ! 0 = roster initial_state ! 0 \<and>
      roster (snd (call_method initial_state (players initial_state ! nat 1)
          (\<lambda>self. setNewPlayerValue self (Finite 7)))) ! 0 = roster initial_state ! 0 \<and>
      roster (snd (transfer_player initial_state 1 ''PSG'' (Finite 10))) ! 0 = roster initial_state ! 0"
    using f o by blast
  have fields: "name (roster (snd (update_player_value initial_state 1 (Finite (- 5)))) ! nat 1) = ''Jude Bellingham'' \<and>
      club (roster (snd (update_player_value initial_state 1 (Finite (- 5)))) ! nat 1) = ''Real Madrid'' \<and>
      position (roster (snd (call_method initial_state (players initial_state ! nat 1)
          (\<lambda>self. setNewPlayerValue self (Finite 7)))) ! nat 1) = ''CM'' \<and>
      name (roster (snd (transfer_player initial_state 1 ''PSG'' (Finite 10))) ! nat 1) = ''Jude Bellingham'' \<and>
      position (roster (snd (main_transfer_player initial_state 1 ''PSG'' (Finite 10))) ! nat 1) = ''CM''"
    using f r by simp
  have l: "length (roster (snd (transfer_player initial_state 1 ''PSG'' (Finite 10)))) = 5"
    using f by (simp add: length_roster len)
  show ?thesis
    using well_formed_initial_state h1 h2 others fields l by blast
qed

section \<open>SetAbsoluteValue\<close>

text \<open>
  C3, as stated, fails on \<open>setNewPlayerValue\<close> of src/backend/app/models.py: for the
  new value -5 the method raises and the value stays 180, it does not become 5.
\<close>

theorem C3_negative_rejected:
  "setNewPlayerValue (roster initial_state ! 0) (Finite (- 5)) =
     (Inl (ValueError MSG_VALUE_FORMAT), roster initial_state ! 0) \<and>
   value (roster initial_state ! 0) = Finite 180 \<and>
   value (snd (setNewPlayerValue (roster initial_state ! 0) (Finite (- 5)))) \<noteq> float_abs (Finite (- 5))"
  by (simp add: setNewPlayerValue_def roster_def initial_state_def)

text \<open>
  C3, amended. On the object at an index in range, \<open>setNewPlayerValue\<close> of the terminal
  program (src/playerObj.py) sets the value to the absolute value of the new value,
  for every new value. \<open>setNewPlayerValue\<close> of src/backend/app/models.py sets the value
  to the new value, which is its absolute value, when the new value is not negative;
  it rejects a negative new value with a \<open>ValueError\<close> and leaves the state unchanged.
\<close>

theorem C3_set_value_amended:
  assumes "well_formed s" "0 \<le> i" "i < int (length (players s))"
  shows "value (roster (snd (call_method s (players s ! nat i)
                  (\<lambda>self. ((), playerObj_setNewPlayerValue self newValue)))) ! nat i) = float_abs newValue \<and>
         (float_ge0 newValue \<longrightarrow>
            fst (call_method s (players s ! nat i) (\<lambda>self. setNewPlayerValue self newValue)) =
              Inr newValue \<and>
            value (roster (snd (call_method s (players s ! nat i)
                  (\<lambda>self. setNewPlayerValue self newValue))) ! nat i) = float_abs newValue) \<and>
         (float_lt0 newValue \<longrightarrow>
            fst (call_method s (players s ! nat i) (\<lambda>self. setNewPlayerValue self newValue)) =
              Inl (ValueError MSG_VALUE_FORMAT) \<and>
            snd (call_method s (players s ! nat i) (\<lambda>self. setNewPlayerValue self newValue)) = s)"
proof -
  have n: "nat i < length (players s)" using assms by linarith
  note at = roster_call_method_nth [OF assms(1) n n]
  have "value (roster (snd (call_method s (players s ! nat i)
      (\<lambda>self. ((), playerObj_setNewPlayerValue self newValue)))) ! nat i) = float_abs newValue"
    by (simp add: at playerObj_setNewPlayerValue_def)
  moreover have "float_ge0 newValue \<longrightarrow>
      fst (call_method s (players s ! nat i) (\<lambda>self. setNewPlayerValue self newValue)) =
        Inr newValue \<and>
      value (roster (snd (call_method s (players s ! nat i)
        (\<lambda>self. setNewPlayerValue self newValue))) ! nat i) = float_abs newValue"
    by (simp add: at fst_call_method setNewPlayerValue_eq float_ge0_not_lt0 float_abs_ge0)
  moreover have "float_lt0 newValue \<longrightarrow>
      fst (call_method s (players s ! nat i) (\<lambda>self. setNewPlayerValue self newValue)) =
        Inl (ValueError MSG_VALUE_FORMAT) \<and>
      snd (call_method s (players s ! nat i) (\<lambda>self. setNewPlayerValue self newValue)) = s"
    by (simp add: fst_call_method call_method_same setNewPlayerValue_eq)
  ultimately show ?thesis by blast
qed

theorem C3_set_value_amended_witness:
  "well_formed initial_state \<and> (0::int) \<le> 0 \<and> 0 < int (length (players initial_state)) \<and>
   value (roster (snd (call_method initial_state (players initial_state ! nat 0)
       (\<lambda>self. ((), playerObj_setNewPlayerValue self (Finite (- 5)))))) ! nat 0) = Finite 5 \<and>
   float_ge0 (Finite 7) \<and>
   value (roster (snd (call_method initial_state (players initial_state ! nat 0)
       (\<lambda>self. setNewPlayerValue self (Finite 7)))) ! nat 0) = Finite 7 \<and>
   float_lt0 (Finite (- 5)) \<and>
   fst (call_method initial_state (players initial_state ! nat 0)
       (\<lambda>self. setNewPlayerValue self (Finite (- 5)))) = Inl (ValueError MSG_VALUE_FORMAT) \<and>
   snd (call_method initial_state (players initial_state ! nat 0)
       (\<lambda>self. setNewPlayerValue self (Finite (- 5)))) = initial_state"
proof -
  have h1: "(0::int) \<le> 0" and h2: "0 < int (length (players initial_state))"
    by (simp_all add: initial_state_def)
  show ?thesis
    using C3_set_value_amended [OF well_formed_initial_state h1 h2, of "Finite (- 5)"]
      C3_set_value_amended [OF well_formed_initial_state h1 h2, of "Finite 7"]
      well_formed_initial_state h2
    by simp
qed

section \<open>Reachable states and the sign of the values\<close>

lemma well_formed_create_player: "well_formed s \<Longrightarrow> well_formed (snd (create_player s d))"
  by (simp add: create_player_cases well_formed_append)

lemma well_formed_update_player_value:
  assumes "well_formed s"
  shows "well_formed (snd (update_player_value s i a))"
proof (cases "0 \<le> i \<and> i < int (length (players s))")
  case True
  then show ?thesis
    using assms by (simp add: snd_update_player_value well_formed_call_method)
next
  case False
  then show ?thesis using assms by (simp add: update_player_value_def)
qed

lemma well_formed_transfer_player:
  assumes "well_formed s"
  shows "well_formed (snd (transfer_player s i c m))"
proof (cases "0 \<le> i \<and> i < int (length (players s))")
  case True
  then show ?thesis
    using assms by (simp add: snd_transfer_player well_formed_call_method)
next
  case False
  then show ?thesis using assms by (simp add: transfer_player_def)
qed

lemma well_formed_delete_player:
  assumes "well_formed s"
  shows "well_formed (snd (delete_player s i))"
proof (cases "0 \<le> i \<and> i < int (length (players s))")
  case True
  have sub: "set (take (nat i) (players s) @ drop (Suc (nat i)) (players s)) \<subseteq> set (players s)"
    using set_take_subset [of "nat i" "players s"] set_drop_subset [of "Suc (nat i)" "players s"]
    by auto
  have "distinct (take (nat i) (players s) @ drop (Suc (nat i)) (players s))"
    using assms distinct_take [of "players s" "nat i"] distinct_drop [of "players s" "Suc (nat i)"]
      set_take_disj_set_drop_if_distinct [of "players s" "nat i" "Suc (nat i)"]
    by (simp add: well_formed_def)
  then show ?thesis
    using True assms sub
    by (auto simp: delete_player_in_range well_formed_def list_all_iff)
next
  case False
  then show ?thesis using assms by (simp add: delete_player_def)
qed

lemma reachable_well_formed: "reachable s \<Longrightarrow> well_formed s"
proof (induction rule: reachable.induct)
  case reach_init
  show ?case by (rule well_formed_initial_state)
next
  case (reach_create s d)
  then show ?case by (simp add: well_formed_create_player)
next
  case (reach_transfer s i c m)
  then show ?case by (simp add: well_formed_transfer_player)
next
  case (reach_value s i a)
  then show ?case by (simp add: well_formed_update_player_value)
next
  case (reach_delete s i)
  then show ?case by (simp add: well_formed_delete_player)
next
  case (reach_list s)
  then show ?case by (simp add: get_players_eq)
qed






text \<open>A fee that is NaN passes both guards of \<open>setNewClub\<close> and is stored as the value.\<close>

lemma transfer_player_stores_nan:
  assumes "well_formed s" "0 \<le> i" "i < int (length (players s))" "\<not> blank c"
  shows "value (roster (snd (transfer_player s i c NaN)) ! nat i) = NaN"
proof -
  have n: "nat i < length (players s)" using assms by linarith
  show ?thesis
    using assms by (simp add: transfer_player_eq roster_heap_update_at [OF assms(1) n])
qed




section \<open>Create: what is rejected and what is not\<close>

lemma create_player_rejects:
  assumes "data_name d = [] \<or> data_club d = [] \<or> data_position d \<notin> VALID_POSITIONS \<or>
           float_lt0 (data_value d)"
  shows "fails_with is_ValidationError (fst (create_player s d)) \<and> snd (create_player s d) = s"
  using assms
  by (auto simp: create_player_cases fails_with_def is_ValidationError_def)

lemma create_player_failure_unchanged:
  "fst (create_player s d) = Inl e \<Longrightarrow> snd (create_player s d) = s"
  by (auto simp: create_player_cases split: if_splits)

text \<open>
  C4. A name of three spaces passes the constraints of \<open>PlayerBase\<close> and the emptiness
  check of \<open>Player.__init__\<close>, which tests the name before it is stripped: the handler
  answers with the new player and appends it, and the stored name is empty.
\<close>

theorem C4_blank_name_accepted:
  "blank ''   '' \<and>
   PlayerBase_valid
     \<lparr>data_name = ''   '', data_position = ''FW'', data_club = ''PSG'', data_value = Finite 10\<rparr> \<and>
   create_player initial_state
     \<lparr>data_name = ''   '', data_position = ''FW'', data_club = ''PSG'', data_value = Finite 10\<rparr> =
     (Inr ([], ''FW'', ''PSG'', Finite 10),
      \<lparr>heap = heap initial_state @
                [\<lparr>name = [], position = ''FW'', club = ''PSG'', value = Finite 10\<rparr>],
       players = [0, 1, 2, 3, 4, 5]\<rparr>)"
proof -
  have b: "blank ''   ''"
    by (simp add: blank_def isspace_def)
  have st: "strip ''   '' = []" "strip ''FW'' = ''FW''" "strip ''PSG'' = ''PSG''"
    by (simp_all add: strip_def lstrip_def rstrip_def isspace_def)
  have v: "PlayerBase_valid
      \<lparr>data_name = ''   '', data_position = ''FW'', data_club = ''PSG'', data_value = Finite 10\<rparr>"
    by (simp add: PlayerBase_valid_def VALID_POSITIONS_def)
  have l: "players initial_state = [0, 1, 2, 3, 4]" "length (heap initial_state) = 5"
    by (simp_all add: initial_state_def)
  have c: "create_player initial_state
      \<lparr>data_name = ''   '', data_position = ''FW'', data_club = ''PSG'', data_value = Finite 10\<rparr> =
      (Inr ([], ''FW'', ''PSG'', Finite 10),
       \<lparr>heap = heap initial_state @
                 [\<lparr>name = [], position = ''FW'', club = ''PSG'', value = Finite 10\<rparr>],
        players = [0, 1, 2, 3, 4, 5]\<rparr>)"
    by (simp add: create_player_cases VALID_POSITIONS_def st l to_dict_def)
  show ?thesis using b v c by simp
qed


end
